theory Spec2Isabelle
  imports Complex_Main "HOL-Library.Word"
begin

unbundle bit_operations_syntax

section \<open>JavaScript values, errors and buffers\<close>

text \<open>
  The fields of a processor that hold a string, \<open>null\<close> or \<open>undefined\<close>
  (\<open>roomId\<close>, \<open>userType\<close>, \<open>myLanguage\<close>, \<open>streamSid\<close>, \<open>userId\<close>) are values
  of \<open>jsval\<close>. \<open>truthy\<close> is JavaScript's conversion to a boolean and \<open>toStr\<close> the
  conversion a template literal applies.
\<close>

datatype jsval = JUndefined | JNull | JStr string

fun truthy :: "jsval \<Rightarrow> bool" where
  "truthy JUndefined = False"
| "truthy JNull = False"
| "truthy (JStr s) = (s \<noteq> [])"

fun toStr :: "jsval \<Rightarrow> string" where
  "toStr JUndefined = ''undefined''"
| "toStr JNull = ''null''"
| "toStr (JStr s) = s"

datatype jserror = RangeError | TypeError | SendError

type_synonym byte = "8 word"

text \<open>
  \<open>Buffer.writeInt16LE(value, offset)\<close>: the two bytes written, low byte first; Node
  throws a RangeError when the value is outside \<open>-32768 .. 32767\<close>.
\<close>

definition writeInt16LE :: "int \<Rightarrow> jserror + byte list" where
  "writeInt16LE v =
     (if v < -32768 \<or> 32767 < v then Inl RangeError
      else Inr [word_of_int v, word_of_int (v div 256)])"

text \<open>
  \<open>Buffer.readInt16LE(offset)\<close>: Node throws a RangeError when fewer than two bytes
  remain at the offset.
\<close>

definition readInt16LE :: "byte list \<Rightarrow> nat \<Rightarrow> jserror + int" where
  "readInt16LE buf i =
     (if i + 2 \<le> length buf
      then (let v = uint (buf ! i) + 256 * uint (buf ! (i + 1))
            in Inr (if 32768 \<le> v then v - 65536 else v))
      else Inl RangeError)"

section \<open>AudioCodec: \<open>decodeMulaw\<close> (bidirectional-processor.js, lines 250-274)\<close>

definition MULAW_BIAS :: int where
  "MULAW_BIAS = 0x84"

text \<open>
  The bitwise operators of JavaScript act on the 32-bit two's complement value of a
  number. The argument is a byte of the buffer (0 to 255) and every value computed from
  it lies between -256 and 32256, where the bit operations of \<open>int\<close> (two's
  complement of unbounded width) give the same results: \<open>~\<close> is \<open>NOT\<close>, \<open>>>\<close> is
  \<open>drop_bit\<close>, \<open><<\<close> is \<open>push_bit\<close>.
\<close>

definition mulawToLinear :: "byte \<Rightarrow> int" where
  "mulawToLinear b =
     (let mulaw = NOT (uint b);
          sign = mulaw AND 0x80;
          exponent = drop_bit 4 mulaw AND 7;
          mantissa = mulaw AND 0x0F;
          sample0 = push_bit (nat exponent + 3) mantissa + push_bit (nat exponent) MULAW_BIAS;
          sample1 = (if exponent = 0 then sample0 + MULAW_BIAS else sample0);
          sample2 = (if sign \<noteq> 0 then - sample1 else sample1)
      in sample2)"

fun decodeMulaw :: "byte list \<Rightarrow> jserror + byte list" where
  "decodeMulaw [] = Inr []"
| "decodeMulaw (b # bs) =
     (case writeInt16LE (mulawToLinear b) of
        Inl e \<Rightarrow> Inl e
      | Inr w \<Rightarrow> (case decodeMulaw bs of Inl e \<Rightarrow> Inl e | Inr r \<Rightarrow> Inr (w @ r)))"

text \<open>
  The reference the specification compares with: the expansion of ITU-T G.711
  \<open>\<mu>\<close>-law, as the reference table is generated (complement the byte, take the
  4-bit mantissa, shift it by 3 and add the bias \<open>0x84\<close>, shift by the 3-bit
  segment number, remove the bias, negate under the sign bit), written with the
  arithmetic of the byte's value. This definition follows the standard, not the source.
\<close>

definition ulaw2linear_reference :: "byte \<Rightarrow> int" where
  "ulaw2linear_reference b =
     (let u = 255 - uint b;
          mantissa = u mod 16;
          segment = (u div 16) mod 8;
          t = (mantissa * 8 + 0x84) * 2 ^ nat segment
      in if 128 \<le> u then 0x84 - t else t - 0x84)"

definition decodeMulaw_reference :: "byte list \<Rightarrow> byte list" where
  "decodeMulaw_reference bs =
     concat (map (\<lambda>b. [word_of_int (ulaw2linear_reference b), word_of_int (ulaw2linear_reference b div 256)]) bs)"

section \<open>Sessions, transports and processors\<close>

text \<open>
  A session slot holds a reference to a processor object, \<open>null\<close>, or is absent
  (\<open>undefined\<close>). Processor objects live in a heap indexed by \<open>nat\<close>; the registry
  \<open>activeSessions\<close> is the one \<open>Map\<close> of server.js that every processor receives.
  The object literal of \<open>/create-room\<close> has the five fields \<open>creatorLanguage\<close> to
  \<open>createdAt\<close>; \<open>callerConnection\<close> and \<open>receiverConnection\<close> are the properties that
  \<open>registerConnection\<close> adds.
\<close>

datatype connref = CUndefined | CNull | CRef nat

record session =
  creatorLanguage :: jsval
  participantLanguage :: jsval
  creatorConnection :: connref
  participantConnection :: connref
  createdAt :: nat
  callerConnection :: connref
  receiverConnection :: connref

datatype message =
    MediaMsg jsval string
  | MarkMsg jsval string
  | ForceDisconnect string

text \<open>
  A transport: its \<open>readyState\<close> (1 is OPEN), the messages sent on it so far, and how
  many more calls of \<open>send\<close> it accepts before \<open>send\<close> throws (\<open>None\<close>: it never
  throws). The last field stands for the environment; the source only calls \<open>send\<close>.
\<close>

record websocket =
  readyState :: nat
  sent :: "message list"
  failAfter :: "nat option"

fun wsSend :: "message \<Rightarrow> websocket \<Rightarrow> jserror + websocket" where
  "wsSend m s =
     (case failAfter s of
        None \<Rightarrow> Inr (s\<lparr>sent := sent s @ [m]\<rparr>)
      | Some 0 \<Rightarrow> Inl SendError
      | Some (Suc k) \<Rightarrow> Inr (s\<lparr>sent := sent s @ [m], failAfter := Some k\<rparr>))"

record counters =
  packetsReceived :: nat
  transcriptions :: nat
  translations_count :: nat
  audiosSent :: nat
  errors :: nat

text \<open>
  JavaScript numbers of the voice analyzer: a finite value or \<open>NaN\<close>. Finite values
  are real numbers here; the rounding of IEEE doubles is not modelled.
\<close>

datatype jsnum = NaN | Num real

record profile =
  pitch :: jsnum
  speed :: jsnum
  energy :: jsnum
  gender :: string
  timestamp :: nat
  samples :: "nat option"

text \<open>
  The fields of \<open>AdvancedVoiceProcessor\<close> (constructor, lines 12-44).
  \<open>voiceProfiles\<close> is the cache of the processor's own \<open>VoiceAnalyzer\<close>.
  \<open>silenceTimeout\<close> says whether the field holds a timer handle (it is truthy) and
  \<open>timerPending\<close> whether that timer is still scheduled.
\<close>

record processor =
  ws :: websocket
  voiceProfiles :: "jsval \<rightharpoonup> profile"
  roomId :: jsval
  userType :: jsval
  myLanguage :: jsval
  streamSid :: jsval
  callSid :: jsval
  userId :: jsval
  audioBuffer :: "byte list list"
  bufferDuration :: nat
  maxBufferDuration :: nat
  minBufferDuration :: nat
  isProcessing :: bool
  silenceTimeout :: bool
  timerPending :: bool
  stats :: counters

definition newProcessor :: "websocket \<Rightarrow> processor" where
  "newProcessor websocket =
     \<lparr>ws = websocket, voiceProfiles = Map.empty,
      roomId = JNull, userType = JNull, myLanguage = JNull,
      streamSid = JNull, callSid = JNull, userId = JNull,
      audioBuffer = [], bufferDuration = 0,
      maxBufferDuration = 2000, minBufferDuration = 500,
      isProcessing = False, silenceTimeout = False, timerPending = False,
      stats = \<lparr>packetsReceived = 0, transcriptions = 0, translations_count = 0,
               audiosSent = 0, errors = 0\<rparr>\<rparr>"

record world =
  activeSessions :: "string \<rightharpoonup> session"
  procs :: "nat \<Rightarrow> processor"
  now :: nat

text \<open>\<open>Map.get\<close> with a key that is not a string finds nothing: only strings are ever set.\<close>

fun getSession :: "world \<Rightarrow> jsval \<Rightarrow> session option" where
  "getSession w (JStr k) = activeSessions w k"
| "getSession w _ = None"

fun setSession :: "jsval \<Rightarrow> session \<Rightarrow> world \<Rightarrow> world" where
  "setSession (JStr k) s w = w\<lparr>activeSessions := (activeSessions w)(k \<mapsto> s)\<rparr>"
| "setSession _ s w = w"

definition setProc :: "nat \<Rightarrow> processor \<Rightarrow> world \<Rightarrow> world" where
  "setProc this p w = w\<lparr>procs := (procs w)(this := p)\<rparr>"

subsection \<open>server.js: \<open>/create-room\<close> (lines 163-194)\<close>

definition createRoom :: "string \<Rightarrow> jsval \<Rightarrow> world \<Rightarrow> world" where
  "createRoom rid lang w =
     w\<lparr>activeSessions := (activeSessions w)(rid \<mapsto>
          \<lparr>creatorLanguage = lang, participantLanguage = JNull,
           creatorConnection = CNull, participantConnection = CNull,
           createdAt = now w,
           callerConnection = CUndefined, receiverConnection = CUndefined\<rparr>)\<rparr>"

subsection \<open>\<open>handleStart\<close> and \<open>registerConnection\<close> (lines 62-105)\<close>

record startEvent =
  ev_streamSid :: jsval
  ev_callSid :: jsval
  param_roomId :: jsval
  param_userType :: jsval
  param_myLanguage :: jsval

definition registerConnection :: "nat \<Rightarrow> world \<Rightarrow> world" where
  "registerConnection this w =
     (let p = procs w this in
      if \<not> truthy (roomId p) then w
      else (case getSession w (roomId p) of
              None \<Rightarrow> w
            | Some session \<Rightarrow>
                setSession (roomId p)
                  (if userType p = JStr ''caller''
                   then session\<lparr>callerConnection := CRef this\<rparr>
                   else session\<lparr>receiverConnection := CRef this\<rparr>) w))"

definition handleStart :: "nat \<Rightarrow> startEvent \<Rightarrow> world \<Rightarrow> world" where
  "handleStart this data w =
     (let p = procs w this;
          p1 = p\<lparr>streamSid := ev_streamSid data, callSid := ev_callSid data,
                 userId := JStr (toStr (roomId p) @ ''_'' @ toStr (userType p))\<rparr>;
          p2 = p1\<lparr>roomId := param_roomId data, userType := param_userType data,
                  myLanguage := param_myLanguage data\<rparr>;
          w1 = setProc this p2 w
      in if \<not> truthy (myLanguage p2) then w1 else registerConnection this w1)"

subsection \<open>\<open>cleanup\<close> (lines 603-630) and the close handler of server.js (lines 454-490)\<close>

definition cleanupLocal :: "processor \<Rightarrow> processor" where
  "cleanupLocal p =
     (let p1 = p\<lparr>audioBuffer := [], bufferDuration := 0, isProcessing := False\<rparr>;
          p2 = (if silenceTimeout p1
                then p1\<lparr>silenceTimeout := False, timerPending := False\<rparr> else p1)
      in if truthy (userId p2)
         then p2\<lparr>voiceProfiles := (voiceProfiles p2)(userId p2 := None)\<rparr> else p2)"

definition cleanup :: "nat \<Rightarrow> world \<Rightarrow> world" where
  "cleanup this w =
     (let p = cleanupLocal (procs w this);
          w1 = setProc this p w
      in if truthy (roomId p)
         then (case getSession w1 (roomId p) of
                 None \<Rightarrow> w1
               | Some session \<Rightarrow>
                   setSession (roomId p)
                     (if userType p = JStr ''creator''
                      then session\<lparr>creatorConnection := CNull\<rparr>
                      else session\<lparr>participantConnection := CNull\<rparr>) w1)
         else w1)"

text \<open>The \<open>cleanup\<close> of the second processor file (unnamed/part_000, lines 531-559).\<close>

definition cleanup_part_000 :: "nat \<Rightarrow> world \<Rightarrow> world" where
  "cleanup_part_000 this w =
     (let p = cleanupLocal (procs w this);
          w1 = setProc this p w
      in if truthy (roomId p)
         then (case getSession w1 (roomId p) of
                 None \<Rightarrow> w1
               | Some session \<Rightarrow>
                   setSession (roomId p)
                     (if userType p = JStr ''caller''
                      then session\<lparr>callerConnection := CNull\<rparr>
                      else session\<lparr>receiverConnection := CNull\<rparr>) w1)
         else w1)"

text \<open>\<open>handleStop\<close> (lines 592-601): the pending timer is cancelled, then \<open>cleanup\<close> runs.\<close>

definition handleStop :: "nat \<Rightarrow> world \<Rightarrow> world" where
  "handleStop this w =
     (let p = procs w this;
          p1 = (if silenceTimeout p then p\<lparr>timerPending := False\<rparr> else p)
      in cleanup this (setProc this p1 w))"

definition notifyOtherSide :: "connref \<Rightarrow> string \<Rightarrow> world \<Rightarrow> world" where
  "notifyOtherSide otherSide reason w =
     (case otherSide of
        CRef other \<Rightarrow>
          (let q = procs w other in
           if readyState (ws q) = 1
           then (case wsSend (ForceDisconnect reason) (ws q) of
                   Inl e \<Rightarrow> w
                 | Inr s \<Rightarrow> setProc other (q\<lparr>ws := s\<rparr>) w)
           else w)
      | _ \<Rightarrow> w)"

fun deleteSession :: "jsval \<Rightarrow> world \<Rightarrow> world" where
  "deleteSession (JStr k) w = w\<lparr>activeSessions := (activeSessions w)(k := None)\<rparr>"
| "deleteSession _ w = w"

definition wsClose :: "nat \<Rightarrow> world \<Rightarrow> world" where
  "wsClose this w =
     (let rid = roomId (procs w this); ut = userType (procs w this) in
      if \<not> truthy rid \<or> \<not> truthy ut then cleanup this w
      else (case getSession w rid of
              None \<Rightarrow> cleanup this w
            | Some session \<Rightarrow>
                (let otherSide = (if ut = JStr ''caller''
                                  then participantConnection session
                                  else creatorConnection session);
                     w1 = notifyOtherSide otherSide
                            ''Other participant disconnected (ws close)'' w;
                     w2 = deleteSession rid w1
                 in cleanup this w2)))"

subsection \<open>A two-party scenario\<close>

definition openSocket :: websocket where
  "openSocket = \<lparr>readyState = 1, sent = [], failAfter = None\<rparr>"

definition world0 :: world where
  "world0 = \<lparr>activeSessions = Map.empty, procs = (\<lambda>_. newProcessor openSocket), now = 0\<rparr>"

definition startOf :: "string \<Rightarrow> string \<Rightarrow> string \<Rightarrow> string \<Rightarrow> startEvent" where
  "startOf sid rid ut lang =
     \<lparr>ev_streamSid = JStr sid, ev_callSid = JStr ''CA1'',
      param_roomId = JStr rid, param_userType = JStr ut, param_myLanguage = JStr lang\<rparr>"

definition worldCallerIn :: world where
  "worldCallerIn =
     handleStart 0 (startOf ''MZ0'' ''room0001'' ''caller'' ''en'')
       (createRoom ''room0001'' (JStr ''en'') world0)"

definition worldBothIn :: world where
  "worldBothIn = handleStart 1 (startOf ''MZ1'' ''room0001'' ''receiver'' ''es'') worldCallerIn"

section \<open>VoiceAnalyzer (voice-analyzer.js)\<close>

text \<open>
  The three detectors read the buffer with \<open>readInt16LE\<close> at the offsets 0, 2, 4, ...
  below its length. \<open>readSamples\<close> is that loop: at an odd length the last read has
  one byte left and throws, which leaves the detector.
\<close>

function readSamples :: "byte list \<Rightarrow> nat \<Rightarrow> jserror + int list" where
  "readSamples buf i =
     (if i < length buf
      then (case readInt16LE buf i of
              Inl e \<Rightarrow> Inl e
            | Inr v \<Rightarrow> (case readSamples buf (i + 2) of
                         Inl e \<Rightarrow> Inl e
                       | Inr vs \<Rightarrow> Inr (v # vs)))
      else Inr [])"
  by pat_completeness auto
termination
  by (relation "measure (\<lambda>(buf, i). length buf - i)") auto

declare readSamples.simps [simp del]

fun jsmap :: "(real \<Rightarrow> real) \<Rightarrow> jsnum \<Rightarrow> jsnum" where
  "jsmap f NaN = NaN"
| "jsmap f (Num x) = Num (f x)"

text \<open>A comparison with \<open>NaN\<close> is false.\<close>

fun jslt :: "jsnum \<Rightarrow> real \<Rightarrow> bool" where
  "jslt NaN c = False"
| "jslt (Num x) c = (x < c)"

fun jsadd :: "jsnum \<Rightarrow> jsnum \<Rightarrow> jsnum" where
  "jsadd (Num x) (Num y) = Num (x + y)"
| "jsadd _ _ = NaN"

text \<open>\<open>Math.round\<close>: the nearest integer, a half going up.\<close>

definition mathRound :: "real \<Rightarrow> real" where
  "mathRound x = of_int \<lfloor>x + 1 / 2\<rfloor>"

text \<open>\<open>a / b\<close> where \<open>a\<close> is 0 whenever \<open>b\<close> is: \<open>0 / 0\<close> is \<open>NaN\<close>.\<close>

definition jsdiv :: "real \<Rightarrow> real \<Rightarrow> jsnum" where
  "jsdiv a b = (if b = 0 then NaN else Num (a / b))"

definition correlation :: "int list \<Rightarrow> nat \<Rightarrow> int" where
  "correlation smp period =
     (\<Sum>i \<leftarrow> [0 ..< length smp - period]. smp ! i * smp ! (i + period))"

definition bestPeriodOf :: "int list \<Rightarrow> nat" where
  "bestPeriodOf smp =
     (let sampleRate = 8000 :: nat;
          minPeriod = sampleRate div 500;
          maxPeriod = sampleRate div 50
      in snd (fold (\<lambda>period (maxCorrelation, bestPeriod).
                      if correlation smp period > maxCorrelation
                      then (correlation smp period, period)
                      else (maxCorrelation, bestPeriod))
                [minPeriod ..< maxPeriod + 1] (0, minPeriod)))"

definition pitchOfFrequency :: "real \<Rightarrow> real" where
  "pitchOfFrequency frequency =
     (let pitchAdjustment =
            (if frequency < 120 then -10 + ((frequency - 85) / 35) * 10
             else if frequency < 165 then -5 + ((frequency - 120) / 45) * 5
             else if frequency < 210 then 0 + ((frequency - 165) / 45) * 10
             else 10 + ((frequency - 210) / 45) * 10)
      in max (-20) (min 20 (mathRound pitchAdjustment)))"

definition detectPitch :: "byte list \<Rightarrow> jserror + jsnum" where
  "detectPitch pcmBuffer =
     (case readSamples pcmBuffer 0 of
        Inl e \<Rightarrow> Inl e
      | Inr smp \<Rightarrow>
          Inr (Num (pitchOfFrequency (8000 / real (bestPeriodOf smp)))))"

fun zeroCrossingsFrom :: "int \<Rightarrow> int list \<Rightarrow> nat" where
  "zeroCrossingsFrom prevSample [] = 0"
| "zeroCrossingsFrom prevSample (sample # rest) =
     (if (prevSample \<ge> 0 \<and> sample < 0) \<or> (prevSample < 0 \<and> sample \<ge> 0)
      then 1 else 0) + zeroCrossingsFrom sample rest"

definition detectSpeed :: "byte list \<Rightarrow> jserror + jsnum" where
  "detectSpeed pcmBuffer =
     (case readSamples pcmBuffer 0 of
        Inl e \<Rightarrow> Inl e
      | Inr smp \<Rightarrow>
          (let zeroCrossings = zeroCrossingsFrom 0 smp;
               durationSeconds = real (length pcmBuffer) / 2 / 8000;
               crossingRate = jsdiv (real zeroCrossings) durationSeconds;
               speedMultiplier =
                 (if jslt crossingRate 150
                  then jsmap (\<lambda>r. 0.8 + (r / 150) * 0.2) crossingRate
                  else if jslt crossingRate 250 then Num 1.0
                  else jsmap (\<lambda>r. 1.0 + ((r - 250) / 250) * 0.3) crossingRate)
           in Inr (jsmap (\<lambda>s. max 0.75 (min 1.5 s)) speedMultiplier)))"

definition detectEnergy :: "byte list \<Rightarrow> jserror + jsnum" where
  "detectEnergy pcmBuffer =
     (case readSamples pcmBuffer 0 of
        Inl e \<Rightarrow> Inl e
      | Inr smp \<Rightarrow>
          (let sumSquares = (\<Sum>sample \<leftarrow> smp. sample * sample);
               sampleCount = length smp;
               rms = jsmap sqrt (jsdiv (real_of_int sumSquares) (real sampleCount));
               volumeAdjustment =
                 (if jslt rms 1000 then jsmap (\<lambda>r. 5 + (r / 1000) * 5) rms
                  else if jslt rms 3000 then Num 0
                  else jsmap (\<lambda>r. -5 - ((r - 3000) / 3000) * 5) rms)
           in Inr (jsmap (\<lambda>v. max (-10) (min 10 (mathRound v))) volumeAdjustment)))"

definition detectGender :: "jsnum \<Rightarrow> string" where
  "detectGender p = (if jslt p 0 then ''male'' else ''female'')"

definition getDefaultProfile :: "nat \<Rightarrow> profile" where
  "getDefaultProfile t =
     \<lparr>pitch = Num 0, speed = Num 1.0, energy = Num 0, gender = ''neutral'',
      timestamp = t, samples = None\<rparr>"

text \<open>\<open>existing.samples || 1\<close>: an absent or zero counter counts as 1.\<close>

fun samplesOr1 :: "nat option \<Rightarrow> nat" where
  "samplesOr1 None = 1"
| "samplesOr1 (Some 0) = 1"
| "samplesOr1 (Some (Suc n)) = Suc n"

text \<open>The running average \<open>existing.x * 0.7 + newProfile.x * 0.3\<close>.\<close>

definition smooth :: "jsnum \<Rightarrow> jsnum \<Rightarrow> jsnum" where
  "smooth old new = jsadd (jsmap (\<lambda>x. x * 0.7) old) (jsmap (\<lambda>x. x * 0.3) new)"

definition updateProfile ::
  "jsval \<Rightarrow> profile \<Rightarrow> nat \<Rightarrow> (jsval \<rightharpoonup> profile) \<Rightarrow> (jsval \<rightharpoonup> profile)" where
  "updateProfile uid newProfile t vp =
     (case vp uid of
        Some existing \<Rightarrow>
          vp(uid \<mapsto>
             \<lparr>pitch = jsmap mathRound (smooth (pitch existing) (pitch newProfile)),
              speed = smooth (speed existing) (speed newProfile),
              energy = jsmap mathRound (smooth (energy existing) (energy newProfile)),
              gender = gender newProfile,
              timestamp = t,
              samples = Some (samplesOr1 (samples existing) + 1)\<rparr>)
      | None \<Rightarrow> vp(uid \<mapsto> newProfile\<lparr>samples := Some 1\<rparr>))"

text \<open>
  \<open>analyzeVoice\<close> (lines 18-42): the \<open>try\<close> block runs the detectors and
  \<open>updateProfile\<close>; the \<open>catch\<close> returns the default profile. The result is the
  returned profile and the cache afterwards. \<open>t\<close> is the value of \<open>Date.now()\<close>,
  the same for the readings within one call.
\<close>

definition analyzeVoice ::
  "byte list \<Rightarrow> jsval \<Rightarrow> nat \<Rightarrow> (jsval \<rightharpoonup> profile) \<Rightarrow> profile \<times> (jsval \<rightharpoonup> profile)" where
  "analyzeVoice pcmBuffer uid t vp =
     (case detectPitch pcmBuffer of
        Inl e \<Rightarrow> (getDefaultProfile t, vp)
      | Inr p \<Rightarrow>
     (case detectSpeed pcmBuffer of
        Inl e \<Rightarrow> (getDefaultProfile t, vp)
      | Inr s \<Rightarrow>
     (case detectEnergy pcmBuffer of
        Inl e \<Rightarrow> (getDefaultProfile t, vp)
      | Inr en \<Rightarrow>
          (let prof = \<lparr>pitch = p, speed = s, energy = en, gender = detectGender p,
                       timestamp = t, samples = None\<rparr>
           in (prof, updateProfile uid prof t vp)))))"

section \<open>OutboundStreamer: \<open>sendToOtherUser\<close> (lines 546-590)\<close>

text \<open>
  \<open>audioBuffer.toString("base64")\<close>: the standard alphabet, three bytes to four
  characters, the last group padded with \<open>=\<close>.
\<close>

definition b64alphabet :: string where
  "b64alphabet = ''ABCDEFGHIJKLMNOPQRSTUVWXYZabcdefghijklmnopqrstuvwxyz0123456789+/''"

definition b64char :: "nat \<Rightarrow> char" where
  "b64char n = b64alphabet ! (n mod 64)"

fun base64 :: "byte list \<Rightarrow> string" where
  "base64 [] = []"
| "base64 [a] =
     [b64char (unat a div 4), b64char ((unat a mod 4) * 16), CHR ''='', CHR ''='']"
| "base64 [a, b] =
     [b64char (unat a div 4), b64char ((unat a mod 4) * 16 + unat b div 16),
      b64char ((unat b mod 16) * 4), CHR ''='']"
| "base64 (a # b # c # rest) =
     [b64char (unat a div 4), b64char ((unat a mod 4) * 16 + unat b div 16),
      b64char ((unat b mod 16) * 4 + unat c div 64), b64char (unat c mod 64)]
     @ base64 rest"

text \<open>
  The chunk loop \<open>for (let i = 0; i < base64Audio.length; i += chunkSize)\<close>, one
  \<open>send\<close> of a media message per chunk. \<open>chunkSize\<close> is the constant 160 in
  bidirectional-processor.js and 320 in unnamed/part_000; the loop is defined for a
  positive chunk size. An exception of \<open>send\<close> leaves the loop; the messages sent
  before it stay sent.
\<close>

function sendChunks ::
  "nat \<Rightarrow> jsval \<Rightarrow> string \<Rightarrow> nat \<Rightarrow> websocket \<Rightarrow> websocket \<times> jserror option" where
  "sendChunks chunkSize sid base64Audio i sock =
     (if i < length base64Audio \<and> 0 < chunkSize
      then (case wsSend (MediaMsg sid (take chunkSize (drop i base64Audio))) sock of
              Inl e \<Rightarrow> (sock, Some e)
            | Inr sock' \<Rightarrow> sendChunks chunkSize sid base64Audio (i + chunkSize) sock')
      else (sock, None))"
  by pat_completeness auto
termination
  by (relation "measure (\<lambda>(chunkSize, sid, base64Audio, i, sock). length base64Audio - i)") auto

declare sendChunks.simps [simp del]

fun showNat :: "nat \<Rightarrow> string" where
  "showNat n =
     (if n < 10 then [char_of (48 + n)]
      else showNat (n div 10) @ [char_of (48 + n mod 10)])"

declare showNat.simps [simp del]

text \<open>The name of the mark: \<open>audio_complete_\<close> and the value of \<open>Date.now()\<close>.\<close>

definition markName :: "nat \<Rightarrow> string" where
  "markName t = ''audio_complete_'' @ showNat t"

definition sendAudio ::
  "nat \<Rightarrow> nat \<Rightarrow> byte list option \<Rightarrow> connref \<Rightarrow> world \<Rightarrow> world" where
  "sendAudio chunkSize this audioBuf otherConnection w =
     (case (audioBuf, otherConnection) of
        (Some audio, CRef other) \<Rightarrow>
          (let q = procs w other in
           if readyState (ws q) \<noteq> 1 then w
           else (case sendChunks chunkSize (streamSid q) (base64 audio) 0 (ws q) of
                   (sock, Some e) \<Rightarrow> setProc other (q\<lparr>ws := sock\<rparr>) w
                 | (sock, None) \<Rightarrow>
                     (case wsSend (MarkMsg (streamSid q) (markName (now w))) sock of
                        Inl e \<Rightarrow> setProc other (q\<lparr>ws := sock\<rparr>) w
                      | Inr sock' \<Rightarrow>
                          (let w1 = setProc other (q\<lparr>ws := sock'\<rparr>) w;
                               p = procs w1 this
                           in setProc this
                                (p\<lparr>stats := (stats p)\<lparr>audiosSent := audiosSent (stats p) + 1\<rparr>\<rparr>)
                                w1))))
      | _ \<Rightarrow> w)"

definition sendToOtherUser :: "nat \<Rightarrow> byte list option \<Rightarrow> connref \<Rightarrow> world \<Rightarrow> world" where
  "sendToOtherUser = sendAudio 160"

text \<open>The same function in unnamed/part_000 (lines 465-518), with its chunk size.\<close>

definition sendToOtherUser_part_000 ::
  "nat \<Rightarrow> byte list option \<Rightarrow> connref \<Rightarrow> world \<Rightarrow> world" where
  "sendToOtherUser_part_000 = sendAudio 320"

section \<open>The external services and the pipeline stages\<close>

text \<open>
  The three Google clients are the environment: a call either rejects or resolves.
  \<open>recognize\<close> resolves to \<open>response.results\<close> (\<open>None\<close> when the field is missing);
  an entry is \<open>None\<close> when the result has no \<open>alternatives\<close> array and else the
  \<open>transcript\<close> of its first alternative (\<open>JUndefined\<close> when there is none).
  \<open>synthesizeSpeech\<close> resolves to \<open>response.audioContent\<close>; its first argument says
  whether the request is the SSML one of \<open>generateHumanLikeSpeech\<close> or the plain one
  of \<open>generateSimpleSpeech\<close> (voice table and SSML markup are functions of the other
  arguments and are not spelled out).
\<close>

datatype 'a outcome = Rejects | Resolves 'a

record services =
  recognize :: "byte list \<Rightarrow> string \<Rightarrow> jsval option list option outcome"
  translate :: "string \<Rightarrow> string \<Rightarrow> string \<Rightarrow> string outcome"
  synthesizeSpeech :: "bool \<Rightarrow> string \<Rightarrow> string \<Rightarrow> profile \<Rightarrow> byte list option outcome"

definition languageMap :: "string \<rightharpoonup> string" where
  "languageMap =
     [''en'' \<mapsto> ''en-US'', ''te'' \<mapsto> ''te-IN'', ''hi'' \<mapsto> ''hi-IN'',
      ''es'' \<mapsto> ''es-ES'', ''fr'' \<mapsto> ''fr-FR'', ''de'' \<mapsto> ''de-DE'']"

fun joinWith :: "string \<Rightarrow> string list \<Rightarrow> string" where
  "joinWith sep [] = []"
| "joinWith sep [x] = x"
| "joinWith sep (x # y # ys) = x @ sep @ joinWith sep (y # ys)"

fun sequenceOpt :: "'a option list \<Rightarrow> 'a list option" where
  "sequenceOpt [] = Some []"
| "sequenceOpt (None # xs) = None"
| "sequenceOpt (Some x # xs) = map_option ((#) x) (sequenceOpt xs)"

text \<open>\<open>transcribeAudioEnhanced\<close> (lines 279-324): \<open>null\<close> on every failure.\<close>

definition transcribeAudioEnhanced :: "services \<Rightarrow> byte list \<Rightarrow> string \<Rightarrow> jsval" where
  "transcribeAudioEnhanced env audio language =
     (let languageCode = (case languageMap language of Some c \<Rightarrow> c | None \<Rightarrow> language)
      in case recognize env audio languageCode of
           Rejects \<Rightarrow> JNull
         | Resolves None \<Rightarrow> JNull
         | Resolves (Some results) \<Rightarrow>
             if results = [] then JNull
             else (case sequenceOpt results of
                     None \<Rightarrow> JNull
                   | Some ts \<Rightarrow> JStr (joinWith '' '' (map toStr (filter truthy ts)))))"

text \<open>\<open>language.split("-")[0]\<close>; on \<open>null\<close> or \<open>undefined\<close> the call throws.\<close>

fun baseSubtag :: "jsval \<Rightarrow> jserror + string" where
  "baseSubtag (JStr s) = Inr (takeWhile (\<lambda>c. c \<noteq> CHR ''-'') s)"
| "baseSubtag _ = Inl TypeError"

text \<open>
  \<open>translateText\<close> (lines 326-346). The second component lists the requests made
  to the translation service, as (text, from, to).
\<close>

definition translateText ::
  "services \<Rightarrow> string \<Rightarrow> jsval \<Rightarrow> jsval \<Rightarrow> string \<times> (string \<times> string \<times> string) list" where
  "translateText env text fromLanguage toLanguage =
     (case baseSubtag fromLanguage of
        Inl e \<Rightarrow> (text, [])
      | Inr from \<Rightarrow>
     (case baseSubtag toLanguage of
        Inl e \<Rightarrow> (text, [])
      | Inr to \<Rightarrow>
          if from = to then (text, [])
          else (case translate env text from to of
                  Rejects \<Rightarrow> (text, [(text, from, to)])
                | Resolves translation \<Rightarrow> (translation, [(text, from, to)]))))"

text \<open>\<open>generateSimpleSpeech\<close> (lines 512-544) and \<open>generateHumanLikeSpeech\<close> (lines 352-476).\<close>

definition generateSimpleSpeech ::
  "services \<Rightarrow> string \<Rightarrow> string \<Rightarrow> profile \<Rightarrow> byte list option" where
  "generateSimpleSpeech env text language voiceProfile =
     (case synthesizeSpeech env False text language voiceProfile of
        Rejects \<Rightarrow> None
      | Resolves audioContent \<Rightarrow> audioContent)"

definition generateHumanLikeSpeech ::
  "services \<Rightarrow> string \<Rightarrow> string \<Rightarrow> profile \<Rightarrow> byte list option" where
  "generateHumanLikeSpeech env text language voiceProfile =
     (case synthesizeSpeech env True text language voiceProfile of
        Rejects \<Rightarrow> generateSimpleSpeech env text language voiceProfile
      | Resolves None \<Rightarrow> generateSimpleSpeech env text language voiceProfile
      | Resolves (Some audioContent) \<Rightarrow> Some audioContent)"

section \<open>ConnectionProcessor: \<open>handleMedia\<close> and \<open>processBuffer\<close> (lines 107-248)\<close>

text \<open>
  \<open>processBuffer\<close> is an \<open>async\<close> function. It runs without interruption up to its
  first \<open>await\<close>, the \<open>recognize\<close> request inside \<open>transcribeAudioEnhanced\<close>:
  that part is \<open>processBuffer_sync\<close>, on the processor alone. Its second result is
  the suspended pipeline (\<open>None\<close> when no pipeline was started): the decoded audio,
  the voice profile and the language the request was issued with.
  \<open>processBuffer_resume\<close> is the rest, from the answer of \<open>recognize\<close> to the
  \<open>finally\<close> block, run as one step on the world of that moment. The calls of
  \<open>global.addTranslation\<close> (the store of server.js that the polling endpoint reads)
  are left out: they touch neither the processors nor the registry nor a transport, and
  they do not throw.
\<close>

record pending =
  pend_pcm :: "byte list"
  pend_profile :: profile
  pend_language :: string

definition isWhite :: "char \<Rightarrow> bool" where
  "isWhite c = (c \<in> set [CHR '' '', CHR 0x09, CHR 0x0A, CHR 0x0B, CHR 0x0C, CHR 0x0D])"

definition trim :: "string \<Rightarrow> string" where
  "trim s = rev (dropWhile isWhite (rev (dropWhile isWhite s)))"

definition bumpErrors :: "processor \<Rightarrow> processor" where
  "bumpErrors p = p\<lparr>stats := (stats p)\<lparr>errors := errors (stats p) + 1\<rparr>\<rparr>"

definition processBuffer_sync :: "nat \<Rightarrow> processor \<Rightarrow> processor \<times> pending option" where
  "processBuffer_sync t p =
     (if audioBuffer p = [] \<or> \<not> truthy (myLanguage p) \<or> isProcessing p then (p, None)
      else
        (let p1 = p\<lparr>isProcessing := True\<rparr>;
             p2 = (if silenceTimeout p1
                   then p1\<lparr>silenceTimeout := False, timerPending := False\<rparr> else p1);
             mulawAudio = concat (audioBuffer p2);
             bufferLengthMs = bufferDuration p2;
             p3 = p2\<lparr>audioBuffer := [], bufferDuration := 0\<rparr>
         in if bufferLengthMs < minBufferDuration p3
            then (p3\<lparr>isProcessing := False\<rparr>, None)
            else (case decodeMulaw mulawAudio of
                    Inl e \<Rightarrow> ((bumpErrors p3)\<lparr>isProcessing := False\<rparr>, None)
                  | Inr pcmAudio \<Rightarrow>
                      (case analyzeVoice pcmAudio (userId p3) t (voiceProfiles p3) of
                         (voiceProfile, vp) \<Rightarrow>
                           (p3\<lparr>voiceProfiles := vp\<rparr>,
                            Some \<lparr>pend_pcm = pcmAudio, pend_profile = voiceProfile,
                                  pend_language = toStr (myLanguage p3)\<rparr>)))))"

definition finish :: "nat \<Rightarrow> world \<Rightarrow> world" where
  "finish this w = setProc this ((procs w this)\<lparr>isProcessing := False\<rparr>) w"

definition processBuffer_resume :: "services \<Rightarrow> nat \<Rightarrow> pending \<Rightarrow> world \<Rightarrow> world" where
  "processBuffer_resume env this k w =
     (let transcript = transcribeAudioEnhanced env (pend_pcm k) (pend_language k) in
      if \<not> truthy transcript \<or> length (trim (toStr transcript)) < 2 then finish this w
      else
        (let p = procs w this;
             w1 = setProc this
                    (p\<lparr>stats := (stats p)\<lparr>transcriptions := transcriptions (stats p) + 1\<rparr>\<rparr>) w
         in case getSession w1 (roomId p) of
              None \<Rightarrow> finish this w1
            | Some session \<Rightarrow>
                (let otherConnection = (if userType p = JStr ''caller''
                                        then receiverConnection session
                                        else callerConnection session)
                 in case otherConnection of
                      CRef other \<Rightarrow>
                        if \<not> truthy (myLanguage (procs w1 other)) then finish this w1
                        else
                          (let otherUserLanguage = myLanguage (procs w1 other);
                               translatedText = fst (translateText env (toStr transcript)
                                                       (myLanguage p) otherUserLanguage);
                               p' = procs w1 this;
                               w2 = setProc this
                                      (p'\<lparr>stats := (stats p')
                                            \<lparr>translations_count := translations_count (stats p') + 1\<rparr>\<rparr>) w1;
                               translatedAudio = generateHumanLikeSpeech env translatedText
                                                   (toStr otherUserLanguage) (pend_profile k)
                           in case translatedAudio of
                                None \<Rightarrow> finish this w2
                              | Some audio \<Rightarrow>
                                  finish this (sendToOtherUser this (Some audio) otherConnection w2))
                    | _ \<Rightarrow> finish this w1)))"

text \<open>A whole run of \<open>processBuffer\<close> with nothing else in between.\<close>

definition processBuffer :: "services \<Rightarrow> nat \<Rightarrow> world \<Rightarrow> world" where
  "processBuffer env this w =
     (case processBuffer_sync (now w) (procs w this) of
        (p, None) \<Rightarrow> setProc this p w
      | (p, Some k) \<Rightarrow> processBuffer_resume env this k (setProc this p w))"

text \<open>
  \<open>handleMedia\<close> (lines 107-131), with the decoded chunk of the frame, and the
  callback of the silence timer (lines 123-129), up to the first \<open>await\<close> of the
  \<open>processBuffer\<close> they may call.
\<close>

definition handleMedia :: "nat \<Rightarrow> byte list \<Rightarrow> processor \<Rightarrow> processor \<times> pending option" where
  "handleMedia t audioChunk p =
     (if \<not> truthy (myLanguage p) then (p, None)
      else
        (let p1 = p\<lparr>stats := (stats p)\<lparr>packetsReceived := packetsReceived (stats p) + 1\<rparr>,
                    audioBuffer := audioBuffer p @ [audioChunk],
                    bufferDuration := bufferDuration p + 20\<rparr>;
             p2 = (if silenceTimeout p1 then p1\<lparr>timerPending := False\<rparr> else p1)
         in if bufferDuration p2 \<ge> maxBufferDuration p2 \<and> \<not> isProcessing p2
            then processBuffer_sync t p2
            else (p2\<lparr>silenceTimeout := True, timerPending := True\<rparr>, None)))"

definition silenceFired :: "nat \<Rightarrow> processor \<Rightarrow> processor \<times> pending option" where
  "silenceFired t p =
     (if \<not> timerPending p then (p, None)
      else
        (let p1 = p\<lparr>timerPending := False\<rparr>
         in if audioBuffer p1 \<noteq> [] \<and> \<not> isProcessing p1
               \<and> bufferDuration p1 \<ge> minBufferDuration p1
            then processBuffer_sync t p1
            else (p1, None)))"

text \<open>
  What can happen on a leg while a pipeline is suspended: a frame arrives, the silence
  timer fires, or \<open>processBuffer\<close> is entered directly. \<open>runTriggers\<close> runs such
  events in order and collects the pipelines they start.
\<close>

datatype trigger = Frame "byte list" | TimerFires | Flush

fun fire :: "nat \<Rightarrow> trigger \<Rightarrow> processor \<Rightarrow> processor \<times> pending option" where
  "fire t (Frame audioChunk) p = handleMedia t audioChunk p"
| "fire t TimerFires p = silenceFired t p"
| "fire t Flush p = processBuffer_sync t p"

fun runTriggers :: "nat \<Rightarrow> trigger list \<Rightarrow> processor \<Rightarrow> processor \<times> pending list" where
  "runTriggers t [] p = (p, [])"
| "runTriggers t (e # es) p =
     (case fire t e p of
        (p1, k) \<Rightarrow> (case runTriggers t es p1 of
                      (p2, ks) \<Rightarrow> (p2, (case k of None \<Rightarrow> [] | Some x \<Rightarrow> [x]) @ ks)))"

fun framesOf :: "trigger list \<Rightarrow> byte list list" where
  "framesOf [] = []"
| "framesOf (Frame c # es) = c # framesOf es"
| "framesOf (_ # es) = framesOf es"

section \<open>Reachable caches, message views and scenarios\<close>


fun isMedia :: "message \<Rightarrow> bool" where
  "isMedia (MediaMsg sid payload) = True"
| "isMedia _ = False"

fun payloadOf :: "message \<Rightarrow> string" where
  "payloadOf (MediaMsg sid payload) = payload"
| "payloadOf _ = []"

text \<open>
  The caller of the scenario after 25 frames of one byte each (500 ms), and the same leg
  after a second start event that carries no language.
\<close>

definition frames25 :: "trigger list" where
  "frames25 = replicate 25 (Frame [0xFF])"

definition legBuffered :: processor where
  "legBuffered = fst (runTriggers 0 frames25 (procs worldBothIn 0))"

definition worldBuffered :: world where
  "worldBuffered = setProc 0 legBuffered worldBothIn"

definition startNoLanguage :: startEvent where
  "startNoLanguage =
     \<lparr>ev_streamSid = JStr ''MZ0'', ev_callSid = JStr ''CA1'',
      param_roomId = JStr ''room0001'', param_userType = JStr ''caller'',
      param_myLanguage = JUndefined\<rparr>"

definition legRestarted :: processor where
  "legRestarted = procs (handleStart 0 startNoLanguage worldBuffered) 0"

text \<open>The caller after a single frame (20 ms).\<close>

definition legShort :: processor where
  "legShort = fst (runTriggers 0 [Frame [0xFF]] (procs worldBothIn 0))"



definition workingServices :: services where
  "workingServices =
     \<lparr>recognize = (\<lambda>audio languageCode. Resolves (Some [Some (JStr ''hello there'')])),
      translate = (\<lambda>text from to. Resolves ''hola''),
      synthesizeSpeech = (\<lambda>ssml text language voiceProfile. Resolves (Some (replicate 160 0)))\<rparr>"

text \<open>A cached profile to start from, and the cache that holds it for one speaker.\<close>

definition profileA :: profile where
  "profileA = \<lparr>pitch = Num 5, speed = Num 1.2, energy = Num (-3), gender = ''male'',
               timestamp = 0, samples = None\<rparr>"

definition cacheA :: "jsval \<rightharpoonup> profile" where
  "cacheA = updateProfile (JStr ''null_null'') profileA 0 Map.empty"

section \<open>Properties: codec\<close>

lemmas scenario_defs =
  worldBothIn_def worldCallerIn_def world0_def startOf_def openSocket_def newProcessor_def
  handleStart_def registerConnection_def createRoom_def setProc_def Let_def

text \<open>
  Claim C1: for every byte, \<open>mulawToLinear\<close> returns the value of the standard
  \<open>\<mu>\<close>-law reference table, and \<open>decodeMulaw\<close> the reference decoding of a buffer.
  The code does not: on the byte \<open>0xFF\<close> (digital silence) it returns 264 where the
  reference has 0, and on \<open>0x00\<close> it returns -32256 where the reference has -32124; the
  decoded buffers differ accordingly.
\<close>

theorem mulawToLinear_differs_from_reference:
  "mulawToLinear 0xFF = 264 \<and> ulaw2linear_reference 0xFF = 0
   \<and> mulawToLinear 0x00 = -32256 \<and> ulaw2linear_reference 0x00 = -32124
   \<and> decodeMulaw [0xFF] = Inr [8, 1] \<and> decodeMulaw_reference [0xFF] = [0, 0]"
  by (simp add: mulawToLinear_def ulaw2linear_reference_def decodeMulaw_reference_def
      MULAW_BIAS_def writeInt16LE_def Let_def)

text \<open>
  In general: on every byte the code's value lies further from zero than the reference
  value, by 264 when the exponent is 0 and by 132 otherwise, because the bias is added
  and never taken off again. No byte decodes to its reference value.
\<close>

lemma sub256_mod16: "((u::int) - 256) mod 16 = u mod 16"
proof -
  have "u - 256 = u + 16 * (- 16)" by simp
  then show ?thesis by (simp only: mod_mult_self2)
qed

lemma sub256_div16_mod8: "(((u::int) - 256) div 16) mod 8 = (u div 16) mod 8"
proof -
  have "u - 256 = u + 16 * (- 16)" by simp
  then have "(u - 256) div 16 = u div 16 + 8 * (- 2)" by (simp only: div_mult_self2)
  then show ?thesis by (simp only: mod_mult_self2)
qed

lemma sub256_div128: "0 \<le> u \<Longrightarrow> u \<le> 255 \<Longrightarrow> odd (((u::int) - 256) div 128) = (128 \<le> u)"
proof -
  assume u: "0 \<le> u" "u \<le> 255"
  have "u - 256 = u + 128 * (- 2)" by simp
  then have d: "(u - 256) div 128 = u div 128 - 2" by (simp only: div_mult_self2)
  show ?thesis
  proof (cases "128 \<le> u")
    case True
    then have "u div 128 = 1" using u by (intro int_div_pos_eq [of u 128 1 "u - 128"]) simp_all
    with True d show ?thesis by simp
  next
    case False
    then have "u div 128 = 0" using u by simp
    with False d show ?thesis by simp
  qed
qed

lemma and15: "(x::int) AND 0x0F = x mod 16"
proof -
  have "(0x0F::int) = mask 4" by (simp add: mask_eq_exp_minus_1)
  then have "x AND 0x0F = take_bit 4 x" by (simp only: take_bit_eq_mask)
  then show ?thesis by (simp add: take_bit_eq_mod)
qed

lemma and7: "(x::int) AND 7 = x mod 8"
proof -
  have "(7::int) = mask 3" by (simp add: mask_eq_exp_minus_1)
  then have "x AND 7 = take_bit 3 x" by (simp only: take_bit_eq_mask)
  then show ?thesis by (simp add: take_bit_eq_mod)
qed

lemma and128: "((x::int) AND 0x80 \<noteq> 0) = odd (x div 128)"
proof -
  have "(0x80::int) = 2 ^ 7" by simp
  then have "(x AND 0x80 = 0) = (\<not> bit x 7)" by (simp only: and_exp_eq_0_iff_not_bit)
  then show ?thesis by (simp add: bit_iff_odd)
qed

lemma mulawToLinear_vs_reference:
  "mulawToLinear b =
     (if 128 \<le> 255 - uint b
      then ulaw2linear_reference b - (if ((255 - uint b) div 16) mod 8 = 0 then 264 else 132)
      else ulaw2linear_reference b + (if ((255 - uint b) div 16) mod 8 = 0 then 264 else 132))"
proof -
  define u where "u = 255 - uint b"
  have "uint b < 2 ^ 8" using uint_lt2p [of b] by simp
  then have u: "0 \<le> u" "u \<le> 255" by (simp_all add: u_def)
  have n: "NOT (uint b) = u - 256" by (simp add: not_int_def u_def)
  define m where "m = u mod 16"
  define e where "e = (u div 16) mod 8"
  have mant: "(u - 256) AND 0x0F = m"
    by (simp only: and15 sub256_mod16 m_def)
  have expo: "drop_bit 4 (u - 256) AND 7 = e"
  proof -
    have "drop_bit 4 (u - 256) = (u - 256) div 16" by (simp add: drop_bit_eq_div)
    then show ?thesis by (simp only: and7 sub256_div16_mod8 e_def)
  qed
  have sgn: "((u - 256) AND 0x80 \<noteq> 0) = (128 \<le> u)"
    by (simp only: and128 sub256_div128 [OF u])
  have t: "push_bit (nat e + 3) m + push_bit (nat e) (0x84::int) = (m * 8 + 0x84) * 2 ^ nat e"
    by (simp add: push_bit_eq_mult power_add algebra_simps)
  define T where "T = (m * 8 + 0x84) * 2 ^ nat e"
  define E where "E = (e = 0)"
  define S where "S = (128 \<le> u)"
  have code: "mulawToLinear b =
                (if S then - (if E then T + 0x84 else T) else (if E then T + 0x84 else T))"
    unfolding mulawToLinear_def MULAW_BIAS_def Let_def n mant expo t
    by (simp only: sgn T_def E_def S_def)
  have ref: "ulaw2linear_reference b = (if S then 0x84 - T else T - 0x84)"
    unfolding ulaw2linear_reference_def Let_def
    by (simp only: u_def [symmetric] m_def [symmetric] e_def [symmetric] T_def S_def)
  have "mulawToLinear b =
     (if S then ulaw2linear_reference b - (if E then 264 else 132)
      else ulaw2linear_reference b + (if E then 264 else 132))"
    unfolding code ref by simp
  then show ?thesis
    by (simp only: S_def E_def u_def e_def)
qed

lemma mulawToLinear_never_reference: "mulawToLinear b \<noteq> ulaw2linear_reference b"
  by (subst mulawToLinear_vs_reference) (simp split: if_splits)

lemma mulawToLinear_range: "- 32768 \<le> mulawToLinear b \<and> mulawToLinear b \<le> 32767"
proof -
  define mulaw where "mulaw = NOT (uint b)"
  define e where "e = drop_bit 4 mulaw AND 7"
  define m where "m = mulaw AND 0x0F"
  have e: "0 \<le> e" "e \<le> 7" by (simp_all add: e_def)
  have m: "0 \<le> m" "m \<le> 15" by (simp_all add: m_def)
  have ne: "nat e \<le> 7" using e by simp
  have p2: "(2::int) ^ nat e \<le> 2 ^ 7" using ne by (intro power_increasing) simp_all
  have p1: "(2::int) ^ (nat e + 3) \<le> 2 ^ 10" using ne by (intro power_increasing) simp_all
  have a: "push_bit (nat e + 3) m \<le> 15 * 2 ^ 10"
    unfolding push_bit_eq_mult using m p1 by (intro mult_mono) simp_all
  have a0: "0 \<le> push_bit (nat e + 3) m" using m by simp
  have b: "push_bit (nat e) (0x84::int) \<le> 132 * 2 ^ 7"
    unfolding push_bit_eq_mult using p2 by simp
  have b0: "0 \<le> push_bit (nat e) (0x84::int)" by simp
  have c: "e = 0 \<Longrightarrow> push_bit (nat e + 3) m + push_bit (nat e) (0x84::int) \<le> 15 * 8 + 132"
    using m by (simp add: push_bit_eq_mult)
  define A where "A = push_bit (nat e + 3) m"
  define B where "B = push_bit (nat e) (0x84::int)"
  have bounds: "0 \<le> A" "A \<le> 15360" "0 \<le> B" "B \<le> 16896" "e = 0 \<Longrightarrow> A + B \<le> 252"
    using a a0 b b0 c by (simp_all add: A_def B_def)
  have "mulawToLinear b =
          (if mulaw AND 0x80 \<noteq> 0 then - (if e = 0 then A + B + 0x84 else A + B)
           else (if e = 0 then A + B + 0x84 else A + B))"
    by (simp add: mulawToLinear_def MULAW_BIAS_def Let_def mulaw_def e_def m_def A_def B_def)
  with bounds show ?thesis by (auto split: if_splits)
qed

text \<open>\<open>writeInt16LE\<close> never throws in \<open>decodeMulaw\<close>, and two bytes are written per sample.\<close>

lemma decodeMulaw_total: "\<exists>pcm. decodeMulaw bs = Inr pcm \<and> length pcm = 2 * length bs"
proof (induction bs)
  case Nil
  then show ?case by simp
next
  case (Cons b bs)
  then obtain pcm where "decodeMulaw bs = Inr pcm" "length pcm = 2 * length bs" by blast
  moreover have "writeInt16LE (mulawToLinear b) =
      Inr [word_of_int (mulawToLinear b), word_of_int (mulawToLinear b div 256)]"
    using mulawToLinear_range [of b] by (simp add: writeInt16LE_def)
  ultimately show ?case by simp
qed

section \<open>Properties: sessions\<close>

lemma session_worldCallerIn:
  "activeSessions worldCallerIn ''room0001'' =
     Some \<lparr>creatorLanguage = JStr ''en'', participantLanguage = JNull,
           creatorConnection = CNull, participantConnection = CNull, createdAt = 0,
           callerConnection = CRef 0, receiverConnection = CUndefined\<rparr>"
  by (simp add: scenario_defs)

lemma session_worldBothIn:
  "activeSessions worldBothIn ''room0001'' =
     Some \<lparr>creatorLanguage = JStr ''en'', participantLanguage = JNull,
           creatorConnection = CNull, participantConnection = CNull, createdAt = 0,
           callerConnection = CRef 0, receiverConnection = CRef 1\<rparr>"
  by (simp add: scenario_defs)

text \<open>
  Claim C2: with both legs registered, when one leg's WebSocket closes the other leg
  receives exactly one force-disconnect message and the session leaves the registry.
  In the scenario both legs are registered and the receiver's socket is open; after the
  close handler has run for the caller, the session is gone but nothing was sent to
  the receiver: the handler reads the slots \<open>participantConnection\<close> and
  \<open>creatorConnection\<close>, while \<open>registerConnection\<close> fills \<open>callerConnection\<close> and
  \<open>receiverConnection\<close>.
\<close>

theorem wsClose_sends_nothing_to_peer:
  "map_option callerConnection (activeSessions worldBothIn ''room0001'') = Some (CRef 0)
   \<and> map_option receiverConnection (activeSessions worldBothIn ''room0001'') = Some (CRef 1)
   \<and> readyState (ws (procs worldBothIn 1)) = 1
   \<and> sent (ws (procs (wsClose 0 worldBothIn) 1)) = []
   \<and> activeSessions (wsClose 0 worldBothIn) ''room0001'' = None"
  by (simp add: scenario_defs wsClose_def notifyOtherSide_def cleanup_def cleanupLocal_def)

theorem wsClose_sends_nothing_to_peer_witness:
  "truthy (roomId (procs worldBothIn 0)) \<and> truthy (userType (procs worldBothIn 0))
   \<and> userType (procs worldBothIn 0) = JStr ''caller''
   \<and> sent (ws (procs (wsClose 0 worldBothIn) 1)) = []
   \<and> activeSessions (wsClose 0 worldBothIn) ''room0001'' = None"
  using wsClose_sends_nothing_to_peer by (simp add: scenario_defs)

text \<open>
  In general: as long as \<open>creatorConnection\<close> and \<open>participantConnection\<close> hold no
  processor (\<open>/create-room\<close> sets them to \<open>null\<close> and \<open>registerConnection\<close> leaves
  them alone, see \<open>registerConnection_other_slot\<close> below), the close handler sends
  nothing on any transport.
\<close>

lemma cleanup_ws [simp]: "ws (procs (cleanup this w) x) = ws (procs w x)"
  by (cases "roomId (cleanupLocal (procs w this))")
     (auto simp: cleanup_def cleanupLocal_def setProc_def Let_def split: option.splits)

lemma deleteSession_procs [simp]: "procs (deleteSession rid w) = procs w"
  by (cases rid) simp_all

lemma wsClose_silent:
  assumes "\<And>s. getSession w (roomId (procs w this)) = Some s \<Longrightarrow>
             creatorConnection s = CNull \<and> participantConnection s = CNull"
  shows "ws (procs (wsClose this w) x) = ws (procs w x)"
proof (cases "getSession w (roomId (procs w this))")
  case None
  then show ?thesis by (simp add: wsClose_def Let_def)
next
  case (Some s)
  with assms have "creatorConnection s = CNull" "participantConnection s = CNull" by simp_all
  with Some show ?thesis by (simp add: wsClose_def Let_def notifyOtherSide_def)
qed

text \<open>
  Claim C3: after a start event with room \<open>R\<close> and leg type \<open>T\<close>, the leg's \<open>userId\<close>
  is \<open>R_T\<close>. \<open>handleStart\<close> builds \<open>userId\<close> before it stores the parameters of
  the event, so the identifier comes from the fields as they were: on a new processor
  the start event of the caller of room \<open>room0001\<close> gives \<open>null_null\<close>.
\<close>

theorem handleStart_userId_null_null:
  "roomId (procs worldCallerIn 0) = JStr ''room0001''
   \<and> userType (procs worldCallerIn 0) = JStr ''caller''
   \<and> userId (procs worldCallerIn 0) = JStr ''null_null''"
  by (simp add: scenario_defs)

lemma registerConnection_procs [simp]: "procs (registerConnection this w) = procs w"
  by (cases "roomId (procs w this)")
     (auto simp: registerConnection_def Let_def split: option.splits)

lemma handleStart_userId_is_old_state:
  "userId (procs (handleStart this data w) this) =
     JStr (toStr (roomId (procs w this)) @ ''_'' @ toStr (userType (procs w this)))"
  by (simp add: handleStart_def Let_def setProc_def)

text \<open>
  Claim C4: attaching a leg changes only its own slot; detaching it (\<open>cleanup\<close>) leaves
  the session in the registry with the leg's slot null and the other slot unchanged.
  \<open>cleanup\<close> in bidirectional-processor.js writes \<open>creatorConnection\<close> or
  \<open>participantConnection\<close>, not the slot \<open>registerConnection\<close> filled: after the
  caller's cleanup the session still holds the caller in \<open>callerConnection\<close>. The
  \<open>cleanup\<close> of unnamed/part_000 nulls that slot.
\<close>

theorem cleanup_leaves_slot_occupied:
  "map_option callerConnection (activeSessions worldBothIn ''room0001'') = Some (CRef 0)
   \<and> map_option callerConnection (activeSessions (cleanup 0 worldBothIn) ''room0001'')
       = Some (CRef 0)
   \<and> map_option receiverConnection (activeSessions (cleanup 0 worldBothIn) ''room0001'')
       = Some (CRef 1)
   \<and> map_option callerConnection
         (activeSessions (cleanup_part_000 0 worldBothIn) ''room0001'') = Some CNull"
  by (simp add: scenario_defs cleanup_def cleanup_part_000_def cleanupLocal_def)

lemma registerConnection_other_slot:
  assumes "truthy (roomId (procs w this))"
    and "getSession w (roomId (procs w this)) = Some s"
    and "getSession (registerConnection this w) (roomId (procs w this)) = Some s'"
  shows "(if userType (procs w this) = JStr ''caller''
          then receiverConnection s' = receiverConnection s \<and> callerConnection s' = CRef this
          else callerConnection s' = callerConnection s \<and> receiverConnection s' = CRef this)
         \<and> creatorConnection s' = creatorConnection s
         \<and> participantConnection s' = participantConnection s"
  using assms
  by (cases "roomId (procs w this)")
     (auto simp: registerConnection_def Let_def split: if_splits)

text \<open>
  In general, \<open>cleanup\<close> of bidirectional-processor.js never changes the slots that
  \<open>registerConnection\<close> fills, and never removes a session.
\<close>

lemma cleanup_keeps_registered_slots:
  assumes "activeSessions w k = Some s"
  shows "\<exists>s'. activeSessions (cleanup this w) k = Some s'
           \<and> callerConnection s' = callerConnection s
           \<and> receiverConnection s' = receiverConnection s"
  using assms
  by (cases "roomId (cleanupLocal (procs w this))")
     (auto simp: cleanup_def setProc_def Let_def split: option.splits)

section \<open>Properties: translation\<close>

text \<open>
  Claim C10: for every text and every two language tags with the same base subtag (the
  part before the first \<open>-\<close>), \<open>translateText\<close> returns the text unchanged and makes no
  request to the translation service.
\<close>

theorem translateText_same_base:
  assumes "takeWhile (\<lambda>c. c \<noteq> CHR ''-'') fromLanguage = takeWhile (\<lambda>c. c \<noteq> CHR ''-'') toLanguage"
  shows "translateText env text (JStr fromLanguage) (JStr toLanguage) = (text, [])"
  using assms by (simp add: translateText_def)

theorem translateText_same_base_witness:
  "\<forall>env. translateText env ''good morning'' (JStr ''en-US'') (JStr ''en-GB'')
          = (''good morning'', [])"
  using translateText_same_base [of "''en-US''" "''en-GB''"] by simp

section \<open>Properties: voice analyzer\<close>








lemma readSamples_nil: "readSamples [] 0 = Inr []"
  by (simp add: readSamples.simps)


lemma correlation_nil: "correlation [] k = 0"
  by (simp add: correlation_def)


lemma bestPeriodOf_flat: "(\<And>k. correlation xs k = 0) \<Longrightarrow> bestPeriodOf xs = 16"
proof -
  assume z: "\<And>k. correlation xs k = 0"
  have "fold (\<lambda>period (maxCorrelation, bestPeriod).
                if correlation xs period > maxCorrelation
                then (correlation xs period, period)
                else (maxCorrelation, bestPeriod)) ps (0, b) = (0, b)" for ps b
    by (induction ps) (simp_all add: z)
  then show ?thesis by (simp add: bestPeriodOf_def Let_def)
qed

lemma detectPitch_nil: "detectPitch [] = Inr (Num 20)"
  by (simp add: detectPitch_def readSamples_nil bestPeriodOf_flat correlation_nil
      pitchOfFrequency_def mathRound_def Let_def)

lemma detectSpeed_nil: "detectSpeed [] = Inr NaN"
  by (simp add: detectSpeed_def readSamples_nil jsdiv_def Let_def)

lemma detectEnergy_nil: "detectEnergy [] = Inr NaN"
  by (simp add: detectEnergy_def readSamples_nil jsdiv_def Let_def)




text \<open>
  Claim C6: on every input on which analysis fails, the empty input included,
  \<open>analyzeVoice\<close> returns the neutral default profile (pitch 0, speed 1.0, energy 0,
  gender neutral) and leaves the cache as it was. An input of odd length makes
  \<open>readInt16LE\<close> throw and is handled so (\<open>analyzeVoice_throws\<close>). The empty buffer
  is not: nothing throws, the divisions \<open>0 / 0\<close> of \<open>detectSpeed\<close> and \<open>detectEnergy\<close>
  give \<open>NaN\<close>, and the profile with pitch 20, speed \<open>NaN\<close>, energy \<open>NaN\<close> and gender
  female is returned and stored; a profile already cached for the speaker is overwritten
  with \<open>NaN\<close> speed and energy.
\<close>

theorem analyzeVoice_empty_input_not_default:
  "analyzeVoice [] (JStr ''null_null'') 7 Map.empty =
     (\<lparr>pitch = Num 20, speed = NaN, energy = NaN, gender = ''female'',
       timestamp = 7, samples = None\<rparr>,
      [JStr ''null_null'' \<mapsto>
         \<lparr>pitch = Num 20, speed = NaN, energy = NaN, gender = ''female'',
          timestamp = 7, samples = Some 1\<rparr>])
   \<and> getDefaultProfile 7 =
       \<lparr>pitch = Num 0, speed = Num 1, energy = Num 0, gender = ''neutral'',
        timestamp = 7, samples = None\<rparr>
   \<and> snd (analyzeVoice [] (JStr ''null_null'') 7 cacheA) (JStr ''null_null'') =
       Some \<lparr>pitch = Num 10, speed = NaN, energy = NaN, gender = ''female'',
             timestamp = 7, samples = Some 2\<rparr>"
  by (simp add: analyzeVoice_def detectPitch_nil detectSpeed_nil detectEnergy_nil
      detectGender_def updateProfile_def getDefaultProfile_def cacheA_def profileA_def
      smooth_def mathRound_def)


lemma smooth_Num: "smooth (Num a) (Num b) = Num (a * 0.7 + b * 0.3)"
  by (simp add: smooth_def)



section \<open>Properties: outbound streamer\<close>

lemma length_base64: "length (base64 bs) = 4 * ((length bs + 2) div 3)"
proof (induction bs rule: base64.induct)
  case (4 a b c rest)
  have "(length (a # b # c # rest) + 2) div 3 = Suc ((length rest + 2) div 3)" by simp
  with 4 show ?case by simp
qed simp_all

lemma chunk_count_step:
  assumes "i < n" and "0 < (c::nat)"
  shows "(n - i + c - 1) div c = Suc ((n - (i + c) + c - 1) div c)"
proof (cases "i + c \<le> n")
  case True
  define x where "x = n - (i + c) + c - 1"
  have "n - i + c - 1 = x + c" using True assms(2) unfolding x_def by arith
  moreover have "(x + c) div c = Suc (x div c)" using assms(2) by simp
  ultimately show ?thesis by (simp add: x_def)
next
  case False
  then have a: "n - (i + c) = 0" by simp
  have "c * 1 \<le> n - i + c - 1" "n - i + c - 1 < c * Suc 1" using assms False by simp_all
  then have b: "(n - i + c - 1) div c = 1"
    by (rule div_nat_eqI)
  have "(c - 1) div c = 0" using assms(2) by simp
  with a b show ?thesis by simp
qed

text \<open>
  On a transport whose \<open>send\<close> does not throw, the loop sends one media message per
  chunk, in order, and the payloads together are the string it was given.
\<close>

lemma sendChunks_reliable:
  "failAfter sock = None \<Longrightarrow> 0 < chunkSize \<Longrightarrow>
   \<exists>ms. sendChunks chunkSize sid s i sock = (sock\<lparr>sent := sent sock @ ms\<rparr>, None)
        \<and> length ms = (length s - i + chunkSize - 1) div chunkSize
        \<and> list_all isMedia ms \<and> concat (map payloadOf ms) = drop i s"
proof (induction chunkSize sid s i sock rule: sendChunks.induct)
  case (1 chunkSize sid s i sock)
  show ?case
  proof (cases "i < length s")
    case False
    with "1.prems" show ?thesis
      by (subst sendChunks.simps) (simp add: div_eq_0_iff)
  next
    case True
    define m where "m = MediaMsg sid (take chunkSize (drop i s))"
    define sock' where "sock' = sock\<lparr>sent := sent sock @ [m]\<rparr>"
    have snd: "wsSend m sock = Inr sock'"
      using "1.prems" by (simp add: sock'_def)
    have fa: "failAfter sock' = None" using "1.prems" by (simp add: sock'_def)
    from "1.IH" [OF _ snd [unfolded m_def] fa "1.prems"(2)] True "1.prems"(2)
    obtain ms where ms:
      "sendChunks chunkSize sid s (i + chunkSize) sock' = (sock'\<lparr>sent := sent sock' @ ms\<rparr>, None)"
      "length ms = (length s - (i + chunkSize) + chunkSize - 1) div chunkSize"
      "list_all isMedia ms" "concat (map payloadOf ms) = drop (i + chunkSize) s"
      by auto
    have step: "sendChunks chunkSize sid s i sock = sendChunks chunkSize sid s (i + chunkSize) sock'"
      using True "1.prems"(2) snd by (subst sendChunks.simps) (simp add: m_def)
    have "sendChunks chunkSize sid s i sock = (sock\<lparr>sent := sent sock @ (m # ms)\<rparr>, None)"
      using step ms(1) by (simp add: sock'_def)
    moreover have "length (m # ms) = (length s - i + chunkSize - 1) div chunkSize"
      using ms(2) chunk_count_step [OF True "1.prems"(2)] by simp
    moreover have "list_all isMedia (m # ms)" using ms(3) by (simp add: m_def)
    moreover have "concat (map payloadOf (m # ms)) = drop i s"
    proof -
      have "take chunkSize (drop i s) @ drop chunkSize (drop i s) = drop i s"
        by (rule append_take_drop_id)
      then have "take chunkSize (drop i s) @ drop (i + chunkSize) s = drop i s"
        by (simp add: add.commute)
      then show ?thesis using ms(4) by (simp add: m_def)
    qed
    ultimately show ?thesis by blast
  qed
qed

lemma sendAudio_reliable:
  assumes "readyState (ws (procs w other)) = 1" and "failAfter (ws (procs w other)) = None"
    and "0 < chunkSize"
  shows "\<exists>ms. sent (ws (procs (sendAudio chunkSize this (Some audio) (CRef other) w) other)) =
               sent (ws (procs w other)) @ ms
                 @ [MarkMsg (streamSid (procs w other)) (markName (now w))]
            \<and> length ms = (4 * ((length audio + 2) div 3) + chunkSize - 1) div chunkSize
            \<and> list_all isMedia ms \<and> concat (map payloadOf ms) = base64 audio"
proof -
  from sendChunks_reliable [OF assms(2) assms(3), of "streamSid (procs w other)" "base64 audio" 0]
  obtain ms where ms:
    "sendChunks chunkSize (streamSid (procs w other)) (base64 audio) 0 (ws (procs w other)) =
       ((ws (procs w other))\<lparr>sent := sent (ws (procs w other)) @ ms\<rparr>, None)"
    "length ms = (length (base64 audio) - 0 + chunkSize - 1) div chunkSize"
    "list_all isMedia ms" "concat (map payloadOf ms) = drop 0 (base64 audio)"
    by blast
  have "sent (ws (procs (sendAudio chunkSize this (Some audio) (CRef other) w) other)) =
          sent (ws (procs w other)) @ ms
            @ [MarkMsg (streamSid (procs w other)) (markName (now w))]"
    using assms(1) assms(2) ms(1)
    by (simp add: sendAudio_def Let_def setProc_def)
  with ms(2-4) show ?thesis by (simp add: length_base64)
qed

lemma peer_of_scenario:
  "readyState (ws (procs worldBothIn 1)) = 1 \<and> failAfter (ws (procs worldBothIn 1)) = None
   \<and> sent (ws (procs worldBothIn 1)) = [] \<and> streamSid (procs worldBothIn 1) = JStr ''MZ1''
   \<and> now worldBothIn = 0"
  by (simp add: scenario_defs)

lemma filter_isMedia_sent:
  "list_all isMedia ms \<Longrightarrow> filter isMedia ms = ms"
  by (induction ms) simp_all

text \<open>
  Claim C8, as stated: for a payload of \<open>L\<close> bytes and frame size \<open>F\<close>, a reachable
  peer receives \<open>ceil(L/F)\<close> media messages and then one mark. The loop cuts the
  base64 text of the payload, not its bytes: a payload of 160 bytes, with the frame size
  160 of bidirectional-processor.js, has 216 base64 characters and goes out in 2 media
  messages, where \<open>ceil(160/160)\<close> is 1.
\<close>

theorem sendToOtherUser_two_chunks_for_160_bytes:
  "length (filter isMedia
     (sent (ws (procs (sendToOtherUser 0 (Some (replicate 160 0)) (CRef 1) worldBothIn) 1)))) = 2
   \<and> (length (replicate 160 (0::byte)) + 159) div 160 = 1"
proof -
  from sendAudio_reliable [of worldBothIn 1 160 0 "replicate 160 0"] peer_of_scenario
  obtain ms where
    "sent (ws (procs (sendAudio 160 0 (Some (replicate 160 0)) (CRef 1) worldBothIn) 1)) =
       ms @ [MarkMsg (JStr ''MZ1'') (markName 0)]"
    "length ms = 2" "list_all isMedia ms"
    by auto
  then show ?thesis by (simp add: sendToOtherUser_def filter_isMedia_sent)
qed

text \<open>
  Claim C8, amended: for every payload and every peer whose transport is open and whose
  \<open>send\<close> does not throw, \<open>sendToOtherUser\<close> appends to the peer's transport exactly
  \<open>ceil(B/F)\<close> media messages followed by exactly one mark, where \<open>B\<close> is the length of
  the base64 text of the payload, \<open>4 * ceil(L/3)\<close> for \<open>L\<close> bytes, and \<open>F\<close> is 160
  (320 in unnamed/part_000); the media payloads are the base64 text, cut in order.
\<close>

theorem sendToOtherUser_chunk_count:
  assumes "readyState (ws (procs w other)) = 1" and "failAfter (ws (procs w other)) = None"
  shows "(\<exists>ms. sent (ws (procs (sendToOtherUser this (Some audio) (CRef other) w) other)) =
               sent (ws (procs w other)) @ ms
                 @ [MarkMsg (streamSid (procs w other)) (markName (now w))]
            \<and> length ms = (4 * ((length audio + 2) div 3) + 159) div 160
            \<and> list_all isMedia ms \<and> concat (map payloadOf ms) = base64 audio)
       \<and> (\<exists>ms. sent (ws (procs (sendToOtherUser_part_000 this (Some audio) (CRef other) w) other)) =
               sent (ws (procs w other)) @ ms
                 @ [MarkMsg (streamSid (procs w other)) (markName (now w))]
            \<and> length ms = (4 * ((length audio + 2) div 3) + 319) div 320
            \<and> list_all isMedia ms \<and> concat (map payloadOf ms) = base64 audio)
       \<and> length (base64 audio) = 4 * ((length audio + 2) div 3)"
  using sendAudio_reliable [OF assms, of 160 this audio]
    sendAudio_reliable [OF assms, of 320 this audio]
  by (simp add: sendToOtherUser_def sendToOtherUser_part_000_def length_base64 add.commute)

theorem sendToOtherUser_chunk_count_witness:
  "readyState (ws (procs worldBothIn 1)) = 1 \<and> failAfter (ws (procs worldBothIn 1)) = None
   \<and> (\<exists>ms. sent (ws (procs (sendToOtherUser 0 (Some (replicate 160 0)) (CRef 1) worldBothIn) 1)) =
               ms @ [MarkMsg (JStr ''MZ1'') (markName 0)]
            \<and> length ms = 2 \<and> list_all isMedia ms)"
proof -
  from sendToOtherUser_chunk_count [of worldBothIn 1 0 "replicate 160 0"] peer_of_scenario
  obtain ms where
    "sent (ws (procs (sendToOtherUser 0 (Some (replicate 160 0)) (CRef 1) worldBothIn) 1)) =
       ms @ [MarkMsg (JStr ''MZ1'') (markName 0)]"
    "length ms = 2" "list_all isMedia ms"
    by auto
  with peer_of_scenario show ?thesis by blast
qed

section \<open>Properties: buffering, single flight and failures\<close>

lemma caller_of_scenario:
  "procs worldBothIn 0 =
     (newProcessor openSocket)\<lparr>streamSid := JStr ''MZ0'', callSid := JStr ''CA1'',
        userId := JStr ''null_null'', roomId := JStr ''room0001'',
        userType := JStr ''caller'', myLanguage := JStr ''en''\<rparr>"
  by (simp add: scenario_defs)

lemma handleMedia_idle_below_max:
  assumes "truthy (myLanguage p)" and "bufferDuration p + 20 < maxBufferDuration p"
  shows "handleMedia t c p =
          (p\<lparr>stats := (stats p)\<lparr>packetsReceived := packetsReceived (stats p) + 1\<rparr>,
              audioBuffer := audioBuffer p @ [c], bufferDuration := bufferDuration p + 20,
              timerPending := True, silenceTimeout := True\<rparr>, None)"
  using assms by (simp add: handleMedia_def Let_def)

lemma legShort_fields:
  "audioBuffer legShort = [[0xFF]] \<and> bufferDuration legShort = 20
   \<and> minBufferDuration legShort = 500 \<and> \<not> isProcessing legShort
   \<and> myLanguage legShort = JStr ''en''"
  by (simp add: legShort_def caller_of_scenario handleMedia_idle_below_max newProcessor_def)

lemma runFrames_idle:
  assumes "truthy (myLanguage p)"
    and "bufferDuration p + 20 * n < maxBufferDuration p"
  shows "runTriggers t (replicate n (Frame c)) p =
           (if n = 0 then p
            else p\<lparr>stats := (stats p)\<lparr>packetsReceived := packetsReceived (stats p) + n\<rparr>,
                   audioBuffer := audioBuffer p @ replicate n c,
                   bufferDuration := bufferDuration p + 20 * n,
                   timerPending := True, silenceTimeout := True\<rparr>, [])"
  using assms
proof (induction n arbitrary: p)
  case 0
  then show ?case by simp
next
  case (Suc n)
  define p1 where
    "p1 = p\<lparr>stats := (stats p)\<lparr>packetsReceived := packetsReceived (stats p) + 1\<rparr>,
              audioBuffer := audioBuffer p @ [c], bufferDuration := bufferDuration p + 20,
              timerPending := True, silenceTimeout := True\<rparr>"
  have h: "handleMedia t c p = (p1, None)"
    unfolding p1_def using Suc.prems by (intro handleMedia_idle_below_max) simp_all
  have ih: "runTriggers t (replicate n (Frame c)) p1 =
           (if n = 0 then p1
            else p1\<lparr>stats := (stats p1)\<lparr>packetsReceived := packetsReceived (stats p1) + n\<rparr>,
                   audioBuffer := audioBuffer p1 @ replicate n c,
                   bufferDuration := bufferDuration p1 + 20 * n,
                   timerPending := True, silenceTimeout := True\<rparr>, [])"
    using Suc.prems by (intro Suc.IH) (simp_all add: p1_def)
  show ?case
    by (cases "n = 0") (simp_all add: h ih, simp_all add: p1_def)
qed

lemma legBuffered_eq:
  "legBuffered =
     (procs worldBothIn 0)\<lparr>stats := (stats (procs worldBothIn 0))\<lparr>packetsReceived := 25\<rparr>,
        audioBuffer := replicate 25 [0xFF], bufferDuration := 500,
        timerPending := True, silenceTimeout := True\<rparr>"
  unfolding legBuffered_def frames25_def
  by (subst runFrames_idle) (simp_all add: caller_of_scenario newProcessor_def)

lemma processBuffer_sync_noop:
  "isProcessing p \<or> audioBuffer p = [] \<or> \<not> truthy (myLanguage p) \<Longrightarrow>
   processBuffer_sync t p = (p, None)"
  by (auto simp: processBuffer_sync_def)

lemma processBuffer_sync_abandoned:
  assumes "\<not> isProcessing p" "audioBuffer p \<noteq> []" "truthy (myLanguage p)"
    and "bufferDuration p < minBufferDuration p"
  shows "processBuffer_sync t p =
           (p\<lparr>silenceTimeout := False,
               timerPending := (if silenceTimeout p then False else timerPending p),
               audioBuffer := [], bufferDuration := 0\<rparr>, None)"
  using assms by (simp add: processBuffer_sync_def Let_def)

lemma processBuffer_sync_started:
  assumes "\<not> isProcessing p" "audioBuffer p \<noteq> []" "truthy (myLanguage p)"
    and "minBufferDuration p \<le> bufferDuration p"
  shows "\<exists>pcm. decodeMulaw (concat (audioBuffer p)) = Inr pcm
           \<and> processBuffer_sync t p =
               (p\<lparr>isProcessing := True, silenceTimeout := False,
                   timerPending := (if silenceTimeout p then False else timerPending p),
                   audioBuffer := [], bufferDuration := 0,
                   voiceProfiles := snd (analyzeVoice pcm (userId p) t (voiceProfiles p))\<rparr>,
                Some \<lparr>pend_pcm = pcm,
                      pend_profile = fst (analyzeVoice pcm (userId p) t (voiceProfiles p)),
                      pend_language = toStr (myLanguage p)\<rparr>)"
proof -
  obtain pcm where "decodeMulaw (concat (audioBuffer p)) = Inr pcm"
    using decodeMulaw_total by blast
  with assms show ?thesis
    by (simp add: processBuffer_sync_def Let_def split: prod.splits)
qed



lemma fire_while_busy:
  assumes "isProcessing p"
  shows "snd (fire t e p) = None \<and> isProcessing (fst (fire t e p))
         \<and> myLanguage (fst (fire t e p)) = myLanguage p
         \<and> (truthy (myLanguage p) \<longrightarrow>
              audioBuffer (fst (fire t e p)) = audioBuffer p @ framesOf [e]
              \<and> bufferDuration (fst (fire t e p)) = bufferDuration p + 20 * length (framesOf [e]))"
  using assms
  by (cases e) (auto simp: handleMedia_def silenceFired_def processBuffer_sync_def Let_def)

lemma framesOf_Cons: "framesOf (e # es) = framesOf [e] @ framesOf es"
  by (cases e) simp_all

lemma runTriggers_while_busy:
  assumes "isProcessing p"
  shows "snd (runTriggers t es p) = [] \<and> isProcessing (fst (runTriggers t es p))
         \<and> (truthy (myLanguage p) \<longrightarrow>
              audioBuffer (fst (runTriggers t es p)) = audioBuffer p @ framesOf es
              \<and> bufferDuration (fst (runTriggers t es p)) =
                  bufferDuration p + 20 * length (framesOf es))"
  using assms
proof (induction es arbitrary: p)
  case Nil
  then show ?case by simp
next
  case (Cons e es)
  define p1 where "p1 = fst (fire t e p)"
  have f: "fire t e p = (p1, None)"
    using fire_while_busy [OF Cons.prems, of t e] by (cases "fire t e p") (simp add: p1_def)
  have b1: "isProcessing p1" "myLanguage p1 = myLanguage p"
    using fire_while_busy [OF Cons.prems, of t e] by (simp_all add: p1_def)
  have a1: "truthy (myLanguage p) \<Longrightarrow> audioBuffer p1 = audioBuffer p @ framesOf [e]
              \<and> bufferDuration p1 = bufferDuration p + 20 * length (framesOf [e])"
    using fire_while_busy [OF Cons.prems, of t e] by (simp add: p1_def)
  from Cons.IH [OF b1(1)] b1(2) a1
  show ?case
    by (cases "runTriggers t es p1") (auto simp: f framesOf_Cons [of e es])
qed

lemma sendAudio_local:
  "isProcessing (procs (sendAudio c this a oc w) x) = isProcessing (procs w x)
   \<and> audioBuffer (procs (sendAudio c this a oc w) x) = audioBuffer (procs w x)
   \<and> bufferDuration (procs (sendAudio c this a oc w) x) = bufferDuration (procs w x)
   \<and> errors (stats (procs (sendAudio c this a oc w) x)) = errors (stats (procs w x))"
  by (auto simp: sendAudio_def Let_def setProc_def
      split: option.splits connref.splits prod.splits sum.splits)

lemma processBuffer_resume_local:
  "\<not> isProcessing (procs (processBuffer_resume env this k w) this)
   \<and> audioBuffer (procs (processBuffer_resume env this k w) this) = audioBuffer (procs w this)
   \<and> bufferDuration (procs (processBuffer_resume env this k w) this) = bufferDuration (procs w this)
   \<and> errors (stats (procs (processBuffer_resume env this k w) this)) = errors (stats (procs w this))"
  by (auto simp: processBuffer_resume_def Let_def finish_def setProc_def sendToOtherUser_def
      sendAudio_local split: option.splits connref.splits)








lemma worldBuffered_caller: "procs worldBuffered 0 = legBuffered \<and> now worldBuffered = 0"
  by (simp add: worldBuffered_def setProc_def scenario_defs)

lemma legBuffered_fields:
  "\<not> isProcessing legBuffered \<and> audioBuffer legBuffered = replicate 25 [0xFF]
   \<and> bufferDuration legBuffered = 500 \<and> minBufferDuration legBuffered = 500
   \<and> myLanguage legBuffered = JStr ''en'' \<and> errors (stats legBuffered) = 0
   \<and> timerPending legBuffered"
  by (simp add: legBuffered_eq caller_of_scenario newProcessor_def)

lemma legRestarted_eq:
  "legRestarted = legBuffered\<lparr>userId := JStr ''room0001_caller'', myLanguage := JUndefined\<rparr>"
  by (simp add: legRestarted_def handleStart_def startNoLanguage_def worldBuffered_def
      setProc_def Let_def legBuffered_eq caller_of_scenario newProcessor_def)

text \<open>
  Claim C5, as stated: \<open>processBuffer\<close> returns without effect when the leg is busy or
  the buffer is empty, and otherwise sets \<open>busy\<close> and swaps the buffer out. The guard
  has a third condition, \<open>!this.myLanguage\<close>. The caller of the scenario has 25 frames
  (500 ms) buffered and the silence timer pending when a second start event without a
  language arrives; the timer then fires and enters \<open>processBuffer\<close> on a leg that is
  not busy and has a non-empty buffer, and the call returns with the leg unchanged:
  \<open>busy\<close> is not set and the buffer is not swapped out.
\<close>

theorem processBuffer_sync_skips_without_language:
  "\<not> isProcessing legRestarted \<and> length (audioBuffer legRestarted) = 25
   \<and> bufferDuration legRestarted = 500 \<and> minBufferDuration legRestarted = 500
   \<and> timerPending legRestarted \<and> myLanguage legRestarted = JUndefined
   \<and> processBuffer_sync 0 legRestarted = (legRestarted, None)
   \<and> silenceFired 0 legRestarted = (legRestarted\<lparr>timerPending := False\<rparr>, None)"
  using legBuffered_fields
  by (simp add: legRestarted_eq processBuffer_sync_def silenceFired_def Let_def)

text \<open>
  Claim C5, amended: \<open>processBuffer\<close> returns without starting a pipeline and without
  modifying the leg when the leg is busy, the buffer is empty or the language is unset
  (\<open>p\<close>). Otherwise it swaps the buffer out and resets the duration to zero before any
  external call; below \<open>minBufferDuration\<close> it abandons without a pipeline and is not
  busy afterwards (\<open>q\<close>); else it is busy and one pipeline is started on the decoded
  segment (\<open>r\<close>). While that pipeline is in flight no sequence of frames, timer
  firings and further entries of \<open>processBuffer\<close> starts another pipeline: the leg
  stays busy and the frames accumulate, in order, in a fresh segment. The completion of
  a pipeline (\<open>processBuffer_resume\<close>) clears \<open>busy\<close> and leaves that segment as it
  is, for the next trigger to flush.
\<close>

theorem processBuffer_single_flight:
  assumes "isProcessing p \<or> audioBuffer p = [] \<or> \<not> truthy (myLanguage p)"
    and "\<not> isProcessing q" "audioBuffer q \<noteq> []" "truthy (myLanguage q)"
      "bufferDuration q < minBufferDuration q"
    and "\<not> isProcessing r" "audioBuffer r \<noteq> []" "truthy (myLanguage r)"
      "minBufferDuration r \<le> bufferDuration r"
  shows "processBuffer_sync t p = (p, None)
     \<and> snd (processBuffer_sync t q) = None
     \<and> \<not> isProcessing (fst (processBuffer_sync t q))
     \<and> audioBuffer (fst (processBuffer_sync t q)) = []
     \<and> bufferDuration (fst (processBuffer_sync t q)) = 0
     \<and> (\<exists>k. snd (processBuffer_sync t r) = Some k
             \<and> decodeMulaw (concat (audioBuffer r)) = Inr (pend_pcm k))
     \<and> isProcessing (fst (processBuffer_sync t r))
     \<and> audioBuffer (fst (processBuffer_sync t r)) = []
     \<and> bufferDuration (fst (processBuffer_sync t r)) = 0
     \<and> (\<forall>es. snd (runTriggers t' es (fst (processBuffer_sync t r))) = []
             \<and> isProcessing (fst (runTriggers t' es (fst (processBuffer_sync t r))))
             \<and> audioBuffer (fst (runTriggers t' es (fst (processBuffer_sync t r)))) = framesOf es
             \<and> bufferDuration (fst (runTriggers t' es (fst (processBuffer_sync t r))))
                 = 20 * length (framesOf es))
     \<and> (\<forall>env this k w.
           \<not> isProcessing (procs (processBuffer_resume env this k w) this)
           \<and> audioBuffer (procs (processBuffer_resume env this k w) this)
               = audioBuffer (procs w this)
           \<and> bufferDuration (procs (processBuffer_resume env this k w) this)
               = bufferDuration (procs w this))"
proof -
  have P: "processBuffer_sync t p = (p, None)"
    using assms(1) by (rule processBuffer_sync_noop)
  have Q: "snd (processBuffer_sync t q) = None" "\<not> isProcessing (fst (processBuffer_sync t q))"
    "audioBuffer (fst (processBuffer_sync t q)) = []"
    "bufferDuration (fst (processBuffer_sync t q)) = 0"
    using assms(2) by (simp_all add: processBuffer_sync_abandoned [OF assms(2-5)])
  obtain pcm where pcm: "decodeMulaw (concat (audioBuffer r)) = Inr pcm"
    and R: "processBuffer_sync t r =
               (r\<lparr>isProcessing := True, silenceTimeout := False,
                   timerPending := (if silenceTimeout r then False else timerPending r),
                   audioBuffer := [], bufferDuration := 0,
                   voiceProfiles := snd (analyzeVoice pcm (userId r) t (voiceProfiles r))\<rparr>,
                Some \<lparr>pend_pcm = pcm,
                      pend_profile = fst (analyzeVoice pcm (userId r) t (voiceProfiles r)),
                      pend_language = toStr (myLanguage r)\<rparr>)"
    using processBuffer_sync_started [OF assms(6-9), of t] by blast
  define r1 where "r1 = fst (processBuffer_sync t r)"
  have r1: "isProcessing r1" "audioBuffer r1 = []" "bufferDuration r1 = 0"
    "truthy (myLanguage r1)"
    using assms(8) by (simp_all add: r1_def R)
  have K: "\<exists>k. snd (processBuffer_sync t r) = Some k
             \<and> decodeMulaw (concat (audioBuffer r)) = Inr (pend_pcm k)"
    by (simp add: R pcm)
  have T: "snd (runTriggers t' es r1) = [] \<and> isProcessing (fst (runTriggers t' es r1))
           \<and> audioBuffer (fst (runTriggers t' es r1)) = framesOf es
           \<and> bufferDuration (fst (runTriggers t' es r1)) = 20 * length (framesOf es)" for es
    using runTriggers_while_busy [OF r1(1), of t' es] r1 by simp
  show ?thesis
    using P Q K r1(1-3) T processBuffer_resume_local
    unfolding r1_def by blast
qed


theorem processBuffer_single_flight_witness:
  "audioBuffer (newProcessor openSocket) = []
   \<and> processBuffer_sync 0 (newProcessor openSocket) = (newProcessor openSocket, None)
   \<and> bufferDuration legShort = 20 \<and> minBufferDuration legShort = 500
   \<and> snd (processBuffer_sync 0 legShort) = None
   \<and> \<not> isProcessing (fst (processBuffer_sync 0 legShort))
   \<and> audioBuffer (fst (processBuffer_sync 0 legShort)) = []
   \<and> bufferDuration legBuffered = 500 \<and> minBufferDuration legBuffered = 500
   \<and> isProcessing (fst (processBuffer_sync 0 legBuffered))
   \<and> audioBuffer (fst (processBuffer_sync 0 legBuffered)) = []
   \<and> snd (runTriggers 0 [Frame [1], Flush, TimerFires, Frame [2], Flush]
            (fst (processBuffer_sync 0 legBuffered))) = []
   \<and> audioBuffer (fst (runTriggers 0 [Frame [1], Flush, TimerFires, Frame [2], Flush]
                         (fst (processBuffer_sync 0 legBuffered)))) = [[1], [2]]"
proof -
  have p: "isProcessing (newProcessor openSocket) \<or> audioBuffer (newProcessor openSocket) = []
           \<or> \<not> truthy (myLanguage (newProcessor openSocket))"
    by (simp add: newProcessor_def)
  have q: "\<not> isProcessing legShort" "audioBuffer legShort \<noteq> []" "truthy (myLanguage legShort)"
    "bufferDuration legShort < minBufferDuration legShort"
    using legShort_fields by simp_all
  have r: "\<not> isProcessing legBuffered" "audioBuffer legBuffered \<noteq> []"
    "truthy (myLanguage legBuffered)" "minBufferDuration legBuffered \<le> bufferDuration legBuffered"
    using legBuffered_fields by simp_all
  note sf = processBuffer_single_flight [OF p q r, of 0 0]
  from sf have "snd (runTriggers 0 [Frame [1], Flush, TimerFires, Frame [2], Flush]
                      (fst (processBuffer_sync 0 legBuffered))) = []
     \<and> audioBuffer (fst (runTriggers 0 [Frame [1], Flush, TimerFires, Frame [2], Flush]
                         (fst (processBuffer_sync 0 legBuffered))))
         = framesOf [Frame [1], Flush, TimerFires, Frame [2], Flush]"
    by blast
  moreover have "audioBuffer (newProcessor openSocket) = []" by (simp add: newProcessor_def)
  ultimately show ?thesis
    using sf legShort_fields legBuffered_fields by simp
qed






subsection \<open>A complete run\<close>

text \<open>
  With services that answer, the caller's 500 ms segment goes through the whole
  pipeline: it is transcribed, translated from \<open>en\<close> to \<open>es\<close>, synthesized to 160
  bytes, and the receiver's transport gets the two media messages of the base64 text and
  then the mark; the three counters of the caller go up by one and the leg is not busy.
\<close>

lemma worldBuffered_session:
  "activeSessions worldBuffered = activeSessions worldBothIn
   \<and> procs worldBuffered 1 = procs worldBothIn 1"
  by (simp add: worldBuffered_def setProc_def)

lemma receiver_of_scenario:
  "myLanguage (procs worldBothIn 1) = JStr ''es''"
  by (simp add: scenario_defs)

lemma sendAudio_reliable_stats:
  assumes "readyState (ws (procs w other)) = 1" and "failAfter (ws (procs w other)) = None"
    and "0 < chunkSize"
  shows "stats (procs (sendAudio chunkSize this (Some audio) (CRef other) w) this) =
           (stats (procs w this))\<lparr>audiosSent := audiosSent (stats (procs w this)) + 1\<rparr>"
proof -
  from sendChunks_reliable [OF assms(2) assms(3), of "streamSid (procs w other)" "base64 audio" 0]
  obtain ms where
    "sendChunks chunkSize (streamSid (procs w other)) (base64 audio) 0 (ws (procs w other)) =
       ((ws (procs w other))\<lparr>sent := sent (ws (procs w other)) @ ms\<rparr>, None)"
    by blast
  then show ?thesis
    using assms(1) assms(2) by (simp add: sendAudio_def Let_def setProc_def)
qed

lemma pipeline_end_to_end:
  "\<exists>ms. sent (ws (procs (processBuffer workingServices 0 worldBuffered) 1)) =
           ms @ [MarkMsg (JStr ''MZ1'') (markName 0)]
        \<and> length ms = 2 \<and> list_all isMedia ms
        \<and> concat (map payloadOf ms) = base64 (replicate 160 0)
        \<and> audiosSent (stats (procs (processBuffer workingServices 0 worldBuffered) 0)) = 1
        \<and> transcriptions (stats (procs (processBuffer workingServices 0 worldBuffered) 0)) = 1
        \<and> translations_count (stats (procs (processBuffer workingServices 0 worldBuffered) 0)) = 1
        \<and> \<not> isProcessing (procs (processBuffer workingServices 0 worldBuffered) 0)"
proof -
  have r: "\<not> isProcessing legBuffered" "audioBuffer legBuffered \<noteq> []"
    "truthy (myLanguage legBuffered)" "minBufferDuration legBuffered \<le> bufferDuration legBuffered"
    using legBuffered_fields by simp_all
  from processBuffer_sync_started [OF r, of 0]
  obtain p1 k where s: "processBuffer_sync 0 legBuffered = (p1, Some k)"
    and p1: "roomId p1 = JStr ''room0001''" "userType p1 = JStr ''caller''"
      "myLanguage p1 = JStr ''en''" "stats p1 = stats legBuffered"
    and k: "pend_language k = ''en''"
    using legBuffered_fields
    by (auto simp: legBuffered_eq caller_of_scenario newProcessor_def)
  define w1 where "w1 = setProc 0 p1 worldBuffered"
  have pb: "processBuffer workingServices 0 worldBuffered = processBuffer_resume workingServices 0 k w1"
    using s worldBuffered_caller by (simp add: processBuffer_def w1_def)
  define w2 where "w2 = setProc 0 (p1\<lparr>stats := (stats p1)\<lparr>transcriptions := 1, translations_count := 1\<rparr>\<rparr>) w1"
  have peer: "readyState (ws (procs w2 1)) = 1" "failAfter (ws (procs w2 1)) = None"
    "sent (ws (procs w2 1)) = []" "streamSid (procs w2 1) = JStr ''MZ1''" "now w2 = 0"
    using peer_of_scenario worldBuffered_session worldBuffered_caller
    by (simp_all add: w2_def w1_def setProc_def)
  have res: "processBuffer_resume workingServices 0 k w1 =
               finish 0 (sendToOtherUser 0 (Some (replicate 160 0)) (CRef 1) w2)"
    using p1 k worldBuffered_session session_worldBothIn receiver_of_scenario
    by (simp add: processBuffer_resume_def workingServices_def transcribeAudioEnhanced_def
        languageMap_def trim_def isWhite_def Let_def w1_def w2_def setProc_def
        translateText_def generateHumanLikeSpeech_def legBuffered_eq caller_of_scenario
        newProcessor_def)
  from sendAudio_reliable [of w2 1 160 0 "replicate 160 0"] peer
  obtain ms where ms:
    "sent (ws (procs (sendToOtherUser 0 (Some (replicate 160 0)) (CRef 1) w2) 1)) =
       ms @ [MarkMsg (JStr ''MZ1'') (markName 0)]"
    "length ms = 2" "list_all isMedia ms" "concat (map payloadOf ms) = base64 (replicate 160 0)"
    by (auto simp: sendToOtherUser_def)
  have st: "stats (procs (sendToOtherUser 0 (Some (replicate 160 0)) (CRef 1) w2) 0) =
              (stats (procs w2 0))\<lparr>audiosSent := audiosSent (stats (procs w2 0)) + 1\<rparr>"
    unfolding sendToOtherUser_def using peer by (intro sendAudio_reliable_stats) simp_all
  have st2: "stats (procs w2 0) = (stats legBuffered)\<lparr>transcriptions := 1, translations_count := 1\<rparr>"
    using p1 by (simp add: w2_def setProc_def)
  have z: "audiosSent (stats legBuffered) = 0"
    by (simp add: legBuffered_eq caller_of_scenario newProcessor_def)
  show ?thesis
    using ms st st2 z by (simp add: pb res finish_def setProc_def)
qed

end
